theory Spec2Isabelle
  imports Complex_Main
begin

chapter \<open>The model\<close>

section \<open>The command-line entry point of paperexport.py\<close>

text \<open>
  The script's \<^verbatim>\<open>__main__\<close> block parses the command line into a namespace with the
  positional list \<^verbatim>\<open>figs\<close> and the flag \<^verbatim>\<open>list_figs\<close>, builds the dictionary
  \<^verbatim>\<open>figlist\<close> and walks the list of tokens:
  \<^verbatim>\<open>
    genfigs = args.figs
    if not genfigs:
        print(figlist.keys())
    for figname in genfigs:
        if figname == "all":
            for fig in figlist.values():
                fig()
            break
        else:
            figlist[figname]()
  \<close>
  The eight registered figure functions are an enumeration. The dictionary is a literal
  with distinct keys, so it is an association list in insertion order.
\<close>

datatype figfun =
    Bruntt_vsini_comparison
  | Pleiades_vsini_comparison
  | asteroseismic_sample_MK
  | cool_dwarf_mk
  | asteroseismic_rotation_analysis
  | cool_dwarf_rotation_analysis
  | plot_rr_fractions
  | plot_binarity_diagram

definition figlist :: "(string \<times> figfun) list" where
  "figlist =
    [(''Bruntt'', Bruntt_vsini_comparison),
     (''SH'', Pleiades_vsini_comparison),
     (''asterosamp'', asteroseismic_sample_MK),
     (''coolsamp'', cool_dwarf_mk),
     (''asterorot'', asteroseismic_rotation_analysis),
     (''coolrot'', cool_dwarf_rotation_analysis),
     (''rrfracs'', plot_rr_fractions),
     (''binarity'', plot_binarity_diagram)]"

text \<open>The namespace returned by \<^verbatim>\<open>parser.parse_args()\<close>.\<close>

record args =
  figs :: "string list"
  list_figs :: bool

text \<open>
  An exception that leaves the script: the \<^verbatim>\<open>KeyError\<close> of a failed dictionary lookup, or
  whatever a figure function raised.
\<close>

datatype 'e exn = KeyError string | Raised 'e

datatype 'e outcome = Returned | Aborted "'e exn"

text \<open>
  The state of a run. \<open>printed\<close> is what \<^verbatim>\<open>print(figlist.keys())\<close> wrote (one entry per
  call, the list of keys), \<open>world\<close> is everything the figure functions read and write
  (catalogs, matplotlib, the file system). \<open>invoked\<close> and \<open>completed\<close> log the calls
  of figure functions: a call is logged in \<open>invoked\<close> when it starts and in
  \<open>completed\<close> when it returns normally.
\<close>

record 'w script_state =
  printed :: "string list list"
  invoked :: "figfun list"
  completed :: "figfun list"
  world :: 'w

text \<open>
  The bodies of the figure functions are calls into plotting and catalogue libraries; they
  are a parameter \<open>body\<close>: run on a world, a figure function either returns (\<open>None\<close>)
  or raises (\<open>Some e\<close>), and leaves a world behind.
\<close>

type_synonym ('w, 'e) bodies = "figfun \<Rightarrow> 'w \<Rightarrow> 'e option \<times> 'w"

definition call_fig ::
  "('w, 'e) bodies \<Rightarrow> figfun \<Rightarrow> 'w script_state \<Rightarrow> 'e outcome \<times> 'w script_state" where
  "call_fig body f s =
    (case body f (world s) of
       (None, w') \<Rightarrow>
         (Returned, s\<lparr>invoked := invoked s @ [f], completed := completed s @ [f], world := w'\<rparr>)
     | (Some e, w') \<Rightarrow>
         (Aborted (Raised e), s\<lparr>invoked := invoked s @ [f], world := w'\<rparr>))"

text \<open>The inner loop \<^verbatim>\<open>for fig in figlist.values(): fig()\<close>.\<close>

fun run_values ::
  "('w, 'e) bodies \<Rightarrow> figfun list \<Rightarrow> 'w script_state \<Rightarrow> 'e outcome \<times> 'w script_state" where
  "run_values body [] s = (Returned, s)"
| "run_values body (fig # rest) s =
    (case call_fig body fig s of
       (Returned, s') \<Rightarrow> run_values body rest s'
     | (Aborted e, s') \<Rightarrow> (Aborted e, s'))"

text \<open>The outer loop \<^verbatim>\<open>for figname in genfigs\<close>, with its \<^verbatim>\<open>break\<close> after "all".\<close>

fun main_loop ::
  "('w, 'e) bodies \<Rightarrow> string list \<Rightarrow> 'w script_state \<Rightarrow> 'e outcome \<times> 'w script_state" where
  "main_loop body [] s = (Returned, s)"
| "main_loop body (figname # rest) s =
    (if figname = ''all'' then run_values body (map snd figlist) s
     else
       (case map_of figlist figname of
          None \<Rightarrow> (Aborted (KeyError figname), s)
        | Some f \<Rightarrow>
            (case call_fig body f s of
               (Returned, s') \<Rightarrow> main_loop body rest s'
             | (Aborted e, s') \<Rightarrow> (Aborted e, s'))))"

definition main ::
  "('w, 'e) bodies \<Rightarrow> args \<Rightarrow> 'w script_state \<Rightarrow> 'e outcome \<times> 'w script_state" where
  "main body a s =
    (let genfigs = figs a;
         s1 = (if genfigs = [] then s\<lparr>printed := printed s @ [map fst figlist]\<rparr> else s)
     in main_loop body genfigs s1)"

text \<open>The values of \<^verbatim>\<open>figlist\<close>, in its order.\<close>

definition all_figfuns :: "figfun list" where
  "all_figfuns =
    [Bruntt_vsini_comparison, Pleiades_vsini_comparison, asteroseismic_sample_MK,
     cool_dwarf_mk, asteroseismic_rotation_analysis, cool_dwarf_rotation_analysis,
     plot_rr_fractions, plot_binarity_diagram]"


section \<open>The decorator \<^verbatim>\<open>write_plot\<close>\<close>

text \<open>
  \<^verbatim>\<open>
    PLOT_SUFFIX = "pdf"

    def build_filepath(toplevel, filename, suffix=PLOT_SUFFIX):
        fullpath = toplevel / ".".join((filename, suffix))
        return str(fullpath)

    def write_plot(filename, suffix=PLOT_SUFFIX, toplevel=FIGURE_PATH):
        def decorator(f):
            @functools.wraps(f)
            def wrapper():
                plt.close("all")
                a = f()
                filepath = build_filepath(toplevel, filename, suffix=suffix)
                plt.savefig(filepath)
                return a
            return wrapper
        return decorator
  \<close>
  \<^verbatim>\<open>toplevel\<close> is a \<^verbatim>\<open>pathlib\<close> path. The two operations of the library that
  \<^verbatim>\<open>build_filepath\<close> uses, the operator \<^verbatim>\<open>/\<close> and \<^verbatim>\<open>str\<close>, are a parameter.
\<close>

record 'p pathlib =
  truediv :: "'p \<Rightarrow> string \<Rightarrow> 'p"
  path_str :: "'p \<Rightarrow> string"

definition PLOT_SUFFIX :: string where
  "PLOT_SUFFIX = ''pdf''"

text \<open>Python's \<^verbatim>\<open>sep.join(parts)\<close>.\<close>

fun str_join :: "string \<Rightarrow> string list \<Rightarrow> string" where
  "str_join sep [] = []"
| "str_join sep [x] = x"
| "str_join sep (x # y # ys) = x @ sep @ str_join sep (y # ys)"

definition build_filepath :: "'p pathlib \<Rightarrow> 'p \<Rightarrow> string \<Rightarrow> string \<Rightarrow> string" where
  "build_filepath lib toplevel filename suffix =
    (let fullpath = truediv lib toplevel (str_join ''.'' [filename, suffix])
     in path_str lib fullpath)"

text \<open>
  What the wrapper touches of matplotlib: the open figures (by number), and the calls of
  \<^verbatim>\<open>plt.savefig\<close>, logged by the path each wrote. \<open>beyond\<close> is the rest of the
  world a figure function reads and writes. \<^verbatim>\<open>plt.close("all")\<close> closes every open
  figure; \<^verbatim>\<open>plt.savefig(path)\<close> writes the current figure to \<open>path\<close> (an I/O failure
  inside the library is outside the model).
\<close>

record 'w mpl_state =
  open_figures :: "nat list"
  savefig_log :: "string list"
  beyond :: 'w

definition plt_close_all :: "'w mpl_state \<Rightarrow> 'w mpl_state" where
  "plt_close_all s = s\<lparr>open_figures := []\<rparr>"

definition plt_savefig :: "string \<Rightarrow> 'w mpl_state \<Rightarrow> 'w mpl_state" where
  "plt_savefig filepath s = s\<lparr>savefig_log := savefig_log s @ [filepath]\<rparr>"

text \<open>
  A figure function takes no argument; run on a state it raises (\<open>Inl e\<close>) or returns a
  value (\<open>Inr a\<close>), and leaves a state behind. The wrapper has no \<^verbatim>\<open>try\<close>: an exception
  of \<open>f\<close> leaves it at the call.
\<close>

type_synonym ('w, 'e, 'a) figure_function = "'w mpl_state \<Rightarrow> ('e + 'a) \<times> 'w mpl_state"

definition write_plot ::
  "'p pathlib \<Rightarrow> string \<Rightarrow> string \<Rightarrow> 'p \<Rightarrow> ('w, 'e, 'a) figure_function \<Rightarrow>
   ('w, 'e, 'a) figure_function" where
  "write_plot lib filename suffix toplevel f s =
    (let s1 = plt_close_all s in
     case f s1 of
       (Inl e, s2) \<Rightarrow> (Inl e, s2)
     | (Inr a, s2) \<Rightarrow>
         (let filepath = build_filepath lib toplevel filename suffix
          in (Inr a, plt_savefig filepath s2)))"

text \<open>
  Concrete data for evaluation: paths as strings, joined with a slash (what
  \<^verbatim>\<open>pathlib\<close> does with a relative name of one component); a figure function that opens
  one figure and returns 7; one that raises.
\<close>

definition string_paths :: "string pathlib" where
  "string_paths = \<lparr>truediv = (\<lambda>p name. p @ ''/'' @ name), path_str = (\<lambda>p. p)\<rparr>"

definition one_figure :: "(unit, unit, nat) figure_function" where
  "one_figure s = (Inr 7, s\<lparr>open_figures := open_figures s @ [1]\<rparr>)"

definition failing_figure :: "(unit, unit, nat) figure_function" where
  "failing_figure s = (Inl (), s)"

definition stale_state :: "unit mpl_state" where
  "stale_state = \<lparr>open_figures = [1, 2], savefig_log = [], beyond = ()\<rparr>"


section \<open>The registered figure functions\<close>

text \<open>
  The eight functions of \<^verbatim>\<open>figlist\<close>, as the module defines them. Seven are decorated;
  six of the eight begin with a call of \<^verbatim>\<open>asteroseismic_data_splitter\<close> or
  \<^verbatim>\<open>cool_data_splitter\<close>, two names that the module never defines or imports, so that
  the call raises \<^verbatim>\<open>NameError\<close>:
  \<^verbatim>\<open>
    @write_plot("Bruntt_comp")
    def Bruntt_vsini_comparison():
        f, ax = plt.subplots(1,1, figsize=(10,10))
        astero_dwarfs = catin.bruntt_dr14_overlap()
        ...
    @write_plot("Pleiades_comp")
    def Pleiades_vsini_comparison():
        f, ax = plt.subplots(1,1, figsize=(10,10))
        targets = catin.Stauffer_APOGEE_overlap()
        ...
    @write_plot("astero_rot")
    def asteroseismic_rotation_analysis():
        astero = asteroseismic_data_splitter()
        ...
    @write_plot("astero")
    def asteroseismic_sample_MK():
        f, ax = plt.subplots(1,1, figsize=(12,12))
        apokasc = asteroseismic_data_splitter()
        ...
    @write_plot("cool_mk_sample")
    def cool_dwarf_mk():
        f, ax = plt.subplots(1,1, figsize=(12,12))
        cool = cool_data_splitter()
        ...
    @write_plot("detection_fraction")
    def plot_rr_fractions():
        cool_data = cool_data_splitter()
        ...
    @write_plot("cool_rot")
    def cool_dwarf_rotation_analysis():
        cool_dwarf = cool_data_splitter()
        ...
    def plot_binarity_diagram():
        cool_dwarf = cool_data_splitter()
        ...
  \<close>
  An exception of a figure function is this \<^verbatim>\<open>NameError\<close>, or whatever a library call
  raised.
\<close>

datatype 'l figure_exn = NameError string | Library 'l

text \<open>
  \<^verbatim>\<open>plt.subplots(...)\<close> opens a new figure, numbered one above the highest open figure.
\<close>

definition plt_subplots :: "'w mpl_state \<Rightarrow> 'w mpl_state" where
  "plt_subplots s = s\<lparr>open_figures := open_figures s @ [Suc (fold max (open_figures s) 0)]\<rparr>"

text \<open>The call of a name that is not defined.\<close>

definition raise_NameError :: "string \<Rightarrow> ('w, 'l figure_exn, unit) figure_function" where
  "raise_NameError name s = (Inl (NameError name), s)"

text \<open>
  The function registered under each entry of \<^verbatim>\<open>figlist\<close>. The bodies of
  \<^verbatim>\<open>Bruntt_vsini_comparison\<close> and \<^verbatim>\<open>Pleiades_vsini_comparison\<close> are calls into the
  catalogue and plotting libraries and are the parameters \<open>bruntt\<close> and \<open>pleiades\<close>;
  the other six are modelled up to the statement that raises.
\<close>

fun registered ::
  "'p pathlib \<Rightarrow> 'p \<Rightarrow> ('w, 'l figure_exn, unit) figure_function \<Rightarrow>
   ('w, 'l figure_exn, unit) figure_function \<Rightarrow> figfun \<Rightarrow>
   ('w, 'l figure_exn, unit) figure_function" where
  "registered lib FIGURE_PATH bruntt pleiades Bruntt_vsini_comparison =
     write_plot lib ''Bruntt_comp'' PLOT_SUFFIX FIGURE_PATH bruntt"
| "registered lib FIGURE_PATH bruntt pleiades Pleiades_vsini_comparison =
     write_plot lib ''Pleiades_comp'' PLOT_SUFFIX FIGURE_PATH pleiades"
| "registered lib FIGURE_PATH bruntt pleiades asteroseismic_rotation_analysis =
     write_plot lib ''astero_rot'' PLOT_SUFFIX FIGURE_PATH
       (raise_NameError ''asteroseismic_data_splitter'')"
| "registered lib FIGURE_PATH bruntt pleiades asteroseismic_sample_MK =
     write_plot lib ''astero'' PLOT_SUFFIX FIGURE_PATH
       (\<lambda>s. raise_NameError ''asteroseismic_data_splitter'' (plt_subplots s))"
| "registered lib FIGURE_PATH bruntt pleiades cool_dwarf_mk =
     write_plot lib ''cool_mk_sample'' PLOT_SUFFIX FIGURE_PATH
       (\<lambda>s. raise_NameError ''cool_data_splitter'' (plt_subplots s))"
| "registered lib FIGURE_PATH bruntt pleiades plot_rr_fractions =
     write_plot lib ''detection_fraction'' PLOT_SUFFIX FIGURE_PATH
       (raise_NameError ''cool_data_splitter'')"
| "registered lib FIGURE_PATH bruntt pleiades cool_dwarf_rotation_analysis =
     write_plot lib ''cool_rot'' PLOT_SUFFIX FIGURE_PATH
       (raise_NameError ''cool_data_splitter'')"
| "registered lib FIGURE_PATH bruntt pleiades plot_binarity_diagram =
     raise_NameError ''cool_data_splitter''"

text \<open>The registered functions as the bodies the entry point calls; the world is matplotlib's.\<close>

definition source_bodies ::
  "'p pathlib \<Rightarrow> 'p \<Rightarrow> ('w, 'l figure_exn, unit) figure_function \<Rightarrow>
   ('w, 'l figure_exn, unit) figure_function \<Rightarrow> ('w mpl_state, 'l figure_exn) bodies" where
  "source_bodies lib FIGURE_PATH bruntt pleiades f w =
    (case registered lib FIGURE_PATH bruntt pleiades f w of
       (Inl e, w') \<Rightarrow> (Some e, w')
     | (Inr a, w') \<Rightarrow> (None, w'))"

text \<open>
  A run for evaluation: the two library-bound bodies open their figure and return, the
  figures go to \<^verbatim>\<open>/paper/fig\<close>, and nothing has been printed, called, opened or saved.
\<close>

definition plots_and_returns :: "(unit, unit figure_exn, unit) figure_function" where
  "plots_and_returns s = (Inr (), plt_subplots s)"

definition example_bodies :: "(unit mpl_state, unit figure_exn) bodies" where
  "example_bodies = source_bodies string_paths ''/paper/fig'' plots_and_returns plots_and_returns"

definition start_state :: "unit mpl_state script_state" where
  "start_state =
    \<lparr>printed = [], invoked = [], completed = [],
     world = \<lparr>open_figures = [], savefig_log = [], beyond = ()\<rparr>\<rparr>"


section \<open>The command line\<close>

text \<open>
  \<^verbatim>\<open>
    parser = argparse.ArgumentParser(description=desc)
    parser.add_argument("figs", nargs="*")
    parser.add_argument("--list-figs", action="store_true")

    args = parser.parse_args()
  \<close>
  A command line is a list of tokens, each either a positional token (a figure name; it
  does not begin with a dash) or the option string \<^verbatim>\<open>--list-figs\<close>. Command lines with
  other option-like tokens (\<^verbatim>\<open>-h\<close>, abbreviations of the flag, \<^verbatim>\<open>--\<close>, unknown options)
  are not represented.
\<close>

datatype cli_token = Positional string | List_figs_flag

fun is_positional :: "cli_token \<Rightarrow> bool" where
  "is_positional (Positional name) = True"
| "is_positional List_figs_flag = False"

fun is_flag :: "cli_token \<Rightarrow> bool" where
  "is_flag (Positional name) = False"
| "is_flag List_figs_flag = True"

fun positional_names :: "cli_token list \<Rightarrow> string list" where
  "positional_names [] = []"
| "positional_names (Positional name # rest) = name # positional_names rest"
| "positional_names (List_figs_flag # rest) = positional_names rest"

text \<open>
  \<^verbatim>\<open>parse_args\<close> of the library, for this parser. The parser does not intermix: the one
  positional argument \<^verbatim>\<open>figs\<close> takes the first run of consecutive positional tokens, and
  a positional token after a later flag is left over, which ends the program with the usage
  error "unrecognized arguments" (exit status 2). The flag is set when the option string
  occurs, any number of times.
\<close>

datatype usage_error = Unrecognized_arguments "string list"

definition parse_args :: "cli_token list \<Rightarrow> usage_error + args" where
  "parse_args argv =
    (let after_flags = dropWhile is_flag argv;
         taken = takeWhile is_positional after_flags;
         extras = positional_names (dropWhile is_positional after_flags)
     in if extras \<noteq> [] then Inl (Unrecognized_arguments extras)
        else Inr \<lparr>figs = positional_names taken, list_figs = (List_figs_flag \<in> set argv)\<rparr>)"

text \<open>
  The script, run on a command line: a usage error ends it before anything else happens
  (\<open>Inl\<close>); otherwise the entry point runs on the parsed namespace.
\<close>

definition script ::
  "('w, 'e) bodies \<Rightarrow> cli_token list \<Rightarrow> 'w script_state \<Rightarrow>
   usage_error + 'e outcome \<times> 'w script_state" where
  "script body argv s =
    (case parse_args argv of
       Inl e \<Rightarrow> Inl e
     | Inr a \<Rightarrow> Inr (main body a s))"

text \<open>The same command line without its \<^verbatim>\<open>--list-figs\<close> tokens.\<close>

definition without_flag :: "cli_token list \<Rightarrow> cli_token list" where
  "without_flag argv = filter is_positional argv"


section \<open>\<^verbatim>\<open>running_percentile\<close>\<close>

text \<open>
  \<^verbatim>\<open>
    def running_percentile(xvals, yvals, size, percentile=0.5):
        median_xs = np.zeros(len(xvals)-size)
        median_ys = np.zeros(len(yvals)-size)
        for start_index, end_index in zip(
                range(0, len(xvals)-size), range(size, len(xvals))):
            median_xs[start_index] = np.mean(xvals[start_index:end_index])
            median_ys[start_index] = np.percentile(
                xvals[start_index:end_index], percentile)
        return median_xs, median_ys
  \<close>
  Arrays are lists of reals. \<^verbatim>\<open>np.mean\<close> and \<^verbatim>\<open>np.percentile\<close> are library functions
  and a parameter of the model (each may raise); the rest is modelled with the errors
  numpy raises: \<^verbatim>\<open>ValueError\<close> for an array of negative length, \<^verbatim>\<open>IndexError\<close> for a
  store outside the array.
\<close>

datatype 'e np_error = ValueError | IndexError | LibraryError 'e

text \<open>\<^verbatim>\<open>np.zeros(n)\<close>.\<close>

definition np_zeros :: "int \<Rightarrow> 'e np_error + real list" where
  "np_zeros n = (if n < 0 then Inl ValueError else Inr (replicate (nat n) 0))"

text \<open>\<^verbatim>\<open>arr[i] = v\<close>: a negative index counts from the end.\<close>

definition np_setitem :: "real list \<Rightarrow> int \<Rightarrow> real \<Rightarrow> 'e np_error + real list" where
  "np_setitem arr i v =
    (let n = int (length arr); j = (if i < 0 then i + n else i)
     in if 0 \<le> j \<and> j < n then Inr (arr[nat j := v]) else Inl IndexError)"

text \<open>\<^verbatim>\<open>xs[start:stop]\<close>: negative bounds count from the end, and both are clipped.\<close>

definition py_slice :: "'a list \<Rightarrow> int \<Rightarrow> int \<Rightarrow> 'a list" where
  "py_slice xs start stop =
    (let n = int (length xs);
         lo = (if start < 0 then max (start + n) 0 else min start n);
         hi = (if stop < 0 then max (stop + n) 0 else min stop n)
     in drop (nat lo) (take (nat hi) xs))"

text \<open>\<^verbatim>\<open>range(a, b)\<close>.\<close>

definition py_range :: "int \<Rightarrow> int \<Rightarrow> int list" where
  "py_range a b = [a..b - 1]"

type_synonym 'e np_mean = "real list \<Rightarrow> 'e + real"
type_synonym ('e, 'q) np_percentile = "real list \<Rightarrow> 'q \<Rightarrow> 'e + real"

fun running_percentile_loop ::
  "'e np_mean \<Rightarrow> ('e, 'q) np_percentile \<Rightarrow> real list \<Rightarrow> 'q \<Rightarrow> (int \<times> int) list \<Rightarrow>
   real list \<Rightarrow> real list \<Rightarrow> 'e np_error + real list \<times> real list" where
  "running_percentile_loop mean pct xvals percentile [] median_xs median_ys =
     Inr (median_xs, median_ys)"
| "running_percentile_loop mean pct xvals percentile ((start_index, end_index) # rest)
     median_xs median_ys =
     (case mean (py_slice xvals start_index end_index) of
        Inl e \<Rightarrow> Inl (LibraryError e)
      | Inr m \<Rightarrow>
     (case np_setitem median_xs start_index m of
        Inl e \<Rightarrow> Inl e
      | Inr median_xs' \<Rightarrow>
     (case pct (py_slice xvals start_index end_index) percentile of
        Inl e \<Rightarrow> Inl (LibraryError e)
      | Inr q \<Rightarrow>
     (case np_setitem median_ys start_index q of
        Inl e \<Rightarrow> Inl e
      | Inr median_ys' \<Rightarrow>
          running_percentile_loop mean pct xvals percentile rest median_xs' median_ys'))))"

definition running_percentile ::
  "'e np_mean \<Rightarrow> ('e, 'q) np_percentile \<Rightarrow> real list \<Rightarrow> 'y list \<Rightarrow> int \<Rightarrow> 'q \<Rightarrow>
   'e np_error + real list \<times> real list" where
  "running_percentile mean pct xvals yvals size' percentile =
    (case np_zeros (int (length xvals) - size') of
       Inl e \<Rightarrow> Inl e
     | Inr median_xs \<Rightarrow>
    (case np_zeros (int (length yvals) - size') of
       Inl e \<Rightarrow> Inl e
     | Inr median_ys \<Rightarrow>
         running_percentile_loop mean pct xvals percentile
           (zip (py_range 0 (int (length xvals) - size')) (py_range size' (int (length xvals))))
           median_xs median_ys))"

text \<open>
  Stand-ins for the two library functions, for evaluation: the arithmetic mean, and the
  smallest element of the window (what \<^verbatim>\<open>np.percentile\<close> returns for the percentile 0);
  both raise on an empty window.
\<close>

definition list_mean :: "unit np_mean" where
  "list_mean xs = (if xs = [] then Inl () else Inr (sum_list xs / real (length xs)))"

definition list_min :: "(unit, real) np_percentile" where
  "list_min xs q = (if xs = [] then Inl () else Inr (Min (set xs)))"


section \<open>The scatter loop of \<^verbatim>\<open>binary_fit\<close>\<close>

text \<open>
  \<^verbatim>\<open>
    real_scatter = []
    measured_scatter = []
    for i, sig in enumerate(sigmas):
        ...
        fitter = fitting.SLSQPLSQFitter()
        empfitter = fitter(dualmodel, (bins[1:]+bins[:-1])/2, binhist)
        print(fitter.fit_info["exit_mode"])
        # A solution was not found.
        if fitter.fit_info["exit_mode"] != 0:
            print(fitter.fit_info["message"])
        else:
            real_scatter.append(np.std(kdiff[~binaries]))
            measured_scatter.append(empfitter.stddev_0.value)

    polycoeff = np.polyfit(measured_scatter, real_scatter, 1)
  \<close>
  What the simulation and the fitter compute in one iteration is library code; the model
  takes its results: the fitter's exit mode and message, the standard deviation
  \<^verbatim>\<open>np.std(kdiff[~binaries])\<close> of the single stars, and the fitted width
  \<^verbatim>\<open>empfitter.stddev_0.value\<close>. The numbers are of an arbitrary type \<open>'v\<close>.
\<close>

record 'v fit_outcome =
  exit_mode :: int
  message :: string
  single_std :: 'v
  stddev_0 :: 'v

datatype console_line = Print_int int | Print_str string

record 'v scatter_state =
  console :: "console_line list"
  real_scatter :: "'v list"
  measured_scatter :: "'v list"

definition scatter_iteration :: "'v fit_outcome \<Rightarrow> 'v scatter_state \<Rightarrow> 'v scatter_state" where
  "scatter_iteration r s =
    (let s1 = s\<lparr>console := console s @ [Print_int (exit_mode r)]\<rparr>
     in if exit_mode r \<noteq> 0
        then s1\<lparr>console := console s1 @ [Print_str (message r)]\<rparr>
        else s1\<lparr>real_scatter := real_scatter s1 @ [single_std r],
                measured_scatter := measured_scatter s1 @ [stddev_0 r]\<rparr>)"

fun scatter_loop :: "'v fit_outcome list \<Rightarrow> 'v scatter_state \<Rightarrow> 'v scatter_state" where
  "scatter_loop [] s = s"
| "scatter_loop (r # rs) s = scatter_loop rs (scatter_iteration r s)"

text \<open>
  From the initialisation of the two lists to the call of \<^verbatim>\<open>np.polyfit\<close>, which is a
  parameter: the result is the fitted polynomial and the state the loop left.
\<close>

definition scatter_relation ::
  "('v list \<Rightarrow> 'v list \<Rightarrow> 'c) \<Rightarrow> 'v fit_outcome list \<Rightarrow> console_line list \<Rightarrow>
   'c \<times> 'v scatter_state" where
  "scatter_relation polyfit fits out =
    (let s = scatter_loop fits \<lparr>console = out, real_scatter = [], measured_scatter = []\<rparr>
     in (polyfit (measured_scatter s) (real_scatter s), s))"

text \<open>What an iteration prints: the exit mode, and the message when the mode is not 0.\<close>

definition iteration_lines :: "'v fit_outcome \<Rightarrow> console_line list" where
  "iteration_lines r =
    (if exit_mode r \<noteq> 0 then [Print_int (exit_mode r), Print_str (message r)]
     else [Print_int (exit_mode r)])"

definition converged :: "'v fit_outcome \<Rightarrow> bool" where
  "converged r = (exit_mode r = 0)"

text \<open>Fit outcomes for evaluation: a fit that converged, and one that did not.\<close>

definition good_fit :: "nat \<Rightarrow> nat \<Rightarrow> nat fit_outcome" where
  "good_fit real_sc measured_sc =
    \<lparr>exit_mode = 0, message = ''Optimization terminated successfully'',
     single_std = real_sc, stddev_0 = measured_sc\<rparr>"

definition failed_fit :: "nat fit_outcome" where
  "failed_fit =
    \<lparr>exit_mode = 8, message = ''Positive directional derivative for linesearch'',
     single_std = 0, stddev_0 = 0\<rparr>"


section \<open>The table writers\<close>

text \<open>
  \<^verbatim>\<open>write_rapid_rotator_tables\<close> and \<^verbatim>\<open>write_marginal_rotator_tables\<close> are the same
  sequence of steps with different period cuts, captions and file names:
  \<^verbatim>\<open>
    mcq = cache.mcquillan_corrected_splitter()
    mcq_dwarfs = mcq.subsample(["Dwarfs", "Right Statistics Teff"])
    mcq_rapid_dwarfs = mcq_dwarfs[np.logical_and(
        mcq_dwarfs["Prot"] > 1.5, mcq_dwarfs["Prot"] <= 7)]
    apo = catin.read_dr14_allStar()
    rapid_table = catalog.join_by_2MASS_key(
        mcq_rapid_dwarfs, apo, "tm_designation", "APOGEE_ID", join_type="left")
    abridged_cols = [
        "kepid", "APOGEE_ID", "SDSS-Teff", "kmag", "M_K", "Corrected K Excess",
        "Prot", "FE_H"]
    rapid_table_abridged = rapid_table[abridged_cols]
    rapid_table_abridged.sort("kepid")
    latex_length = 5
    latex_table = rapid_table_abridged[:latex_length]
    ...
    latex_table.write(
        str(TABLE_PATH / "table1.tex"), format="ascii.aastex",
        latexdict=latexdict, overwrite=True, names=latex_colnames,
        formats=colformats)
    ...
    rapid_table_abridged.write(
        str(TABLE_PATH / "table1.txt"), format="ascii.fixed_width",
        names=ascii_colnames, overwrite=True, fill_values=badformat,
        formats=colformats)
  \<close>
  The two catalogues are the inputs of the model: \<open>mcq_dwarfs\<close>, the subsample the
  splitter returns, and \<open>apo\<close>, the allStar table. A row carries the columns the writers
  read. The period and the identifier are numbers the code compares; the other numeric
  columns are only carried along, and their cells (a number or a masked value) are of an
  arbitrary type \<open>'v\<close>.
\<close>

record 'v mcq_row =
  kepid :: int
  tm_designation :: string
  SDSS_Teff :: 'v
  kmag :: 'v
  M_K :: 'v
  Corrected_K_Excess :: 'v
  Prot :: real

record 'v apo_row =
  APOGEE_ID :: string
  FE_H :: 'v

text \<open>
  Modelled from the spec: \<^verbatim>\<open>catalog.join_by_2MASS_key\<close>, a helper outside this file. The
  spec counts catalogue joins among the external collaborators; the call asks for
  \<^verbatim>\<open>join_type="left"\<close> on the keys \<^verbatim>\<open>tm_designation\<close> and \<^verbatim>\<open>APOGEE_ID\<close>. So: a left outer
  join. Every row of the left table is kept, once for each row of the right table whose key
  names the same 2MASS source, and once with the right table's columns masked (\<open>None\<close>)
  when there is no such row. When two keys name the same source is the parameter \<open>same\<close>.
  The order of the joined rows is the model's choice; the writers sort afterwards.
\<close>

definition join_by_2MASS_key ::
  "(string \<Rightarrow> string \<Rightarrow> bool) \<Rightarrow> 'v mcq_row list \<Rightarrow> 'v apo_row list \<Rightarrow>
   ('v mcq_row \<times> 'v apo_row option) list" where
  "join_by_2MASS_key same left right =
    concat (map (\<lambda>l.
      (case filter (\<lambda>r. same (tm_designation l) (APOGEE_ID r)) right of
         [] \<Rightarrow> [(l, None)]
       | matches \<Rightarrow> map (\<lambda>r. (l, Some r)) matches)) left)"

text \<open>
  A row of the abridged table \<^verbatim>\<open>rapid_table[abridged_cols]\<close>: its eight columns, in the
  order of \<^verbatim>\<open>abridged_cols\<close>. The two columns that come from APOGEE are masked
  (\<open>None\<close>) for a star without a match.
\<close>

record 'v table_row =
  col_kepid :: int
  col_APOGEE_ID :: "string option"
  col_SDSS_Teff :: 'v
  col_kmag :: 'v
  col_M_K :: 'v
  col_Corrected_K_Excess :: 'v
  col_Prot :: real
  col_FE_H :: "'v option"

definition abridged_cols :: "string list" where
  "abridged_cols =
    [''kepid'', ''APOGEE_ID'', ''SDSS-Teff'', ''kmag'', ''M_K'', ''Corrected K Excess'',
     ''Prot'', ''FE_H'']"

definition select_abridged :: "'v mcq_row \<times> 'v apo_row option \<Rightarrow> 'v table_row" where
  "select_abridged j =
    (case j of (l, r) \<Rightarrow>
      \<lparr>col_kepid = kepid l,
       col_APOGEE_ID = map_option APOGEE_ID r,
       col_SDSS_Teff = SDSS_Teff l,
       col_kmag = kmag l,
       col_M_K = M_K l,
       col_Corrected_K_Excess = Corrected_K_Excess l,
       col_Prot = Prot l,
       col_FE_H = map_option FE_H r\<rparr>)"

text \<open>An astropy table: the names of its columns and its rows.\<close>

record 'v table =
  colnames :: "string list"
  rows :: "'v table_row list"

text \<open>\<^verbatim>\<open>t.sort("kepid")\<close> and \<^verbatim>\<open>t[:n]\<close>.\<close>

definition sort_kepid :: "'v table \<Rightarrow> 'v table" where
  "sort_kepid t = t\<lparr>rows := sort_key col_kepid (rows t)\<rparr>"

definition head_rows :: "nat \<Rightarrow> 'v table \<Rightarrow> 'v table" where
  "head_rows n t = t\<lparr>rows := take n (rows t)\<rparr>"

text \<open>
  A written file: the format, the column names of the header (the argument
  \<^verbatim>\<open>names\<close>) and the table. The other keyword arguments (\<^verbatim>\<open>latexdict\<close>,
  \<^verbatim>\<open>formats\<close>, \<^verbatim>\<open>fill_values\<close>, the comments) are constants of each call that
  fix the rendering of the same rows; they are left out. The file system maps a path to
  the file at that path.
\<close>

record 'v table_file =
  format :: string
  names :: "string list"
  content :: "'v table"

type_synonym 'v filesystem = "string \<rightharpoonup> 'v table_file"

datatype os_error = FileExists string

text \<open>
  \<^verbatim>\<open>Table.write(path, overwrite=...)\<close>: without \<^verbatim>\<open>overwrite\<close> the library refuses to
  replace an existing file and raises \<^verbatim>\<open>OSError\<close>; with it the file is replaced.
\<close>

definition table_write ::
  "string \<Rightarrow> bool \<Rightarrow> 'v table_file \<Rightarrow> 'v filesystem \<Rightarrow> os_error + 'v filesystem" where
  "table_write path overwrite file fs =
    (if path \<in> dom fs \<and> \<not> overwrite then Inl (FileExists path)
     else Inr (fs(path \<mapsto> file)))"

definition backslash :: string where
  "backslash = [CHR 0x5C]"

definition Protstr :: string where
  "Protstr = ''$P_{'' @ backslash @ ''mathrm{rot}}$''"

definition latex_colnames :: "string list" where
  "latex_colnames =
    [''KIC'', ''APOGEE ID'', ''$'' @ backslash @ ''Teff$'',
     backslash @ ''(K'' @ backslash @ '')'', backslash @ ''MK'',
     ''$'' @ backslash @ ''Delta '' @ backslash @ ''MK$'', Protstr, backslash @ ''feh'']"

definition ascii_colnames :: "string list" where
  "ascii_colnames =
    [''KIC'', ''APOGEE_ID'', ''Teff'', ''K'', ''MK'', ''DELTA_K'', ''Prot'', ''[Fe/H]'']"

definition write_rapid_rotator_tables ::
  "'p pathlib \<Rightarrow> 'p \<Rightarrow> (string \<Rightarrow> string \<Rightarrow> bool) \<Rightarrow> 'v mcq_row list \<Rightarrow> 'v apo_row list \<Rightarrow>
   'v filesystem \<Rightarrow> os_error + 'v filesystem" where
  "write_rapid_rotator_tables lib TABLE_PATH same mcq_dwarfs apo fs =
    (let mcq_rapid_dwarfs = filter (\<lambda>r. Prot r > 1.5 \<and> Prot r \<le> 7) mcq_dwarfs;
         rapid_table = join_by_2MASS_key same mcq_rapid_dwarfs apo;
         rapid_table_abridged =
           sort_kepid \<lparr>colnames = abridged_cols, rows = map select_abridged rapid_table\<rparr>;
         latex_length = 5;
         latex_table = head_rows latex_length rapid_table_abridged
     in case table_write (path_str lib (truediv lib TABLE_PATH ''table1.tex'')) True
               \<lparr>format = ''ascii.aastex'', names = latex_colnames, content = latex_table\<rparr> fs of
          Inl e \<Rightarrow> Inl e
        | Inr fs1 \<Rightarrow>
            table_write (path_str lib (truediv lib TABLE_PATH ''table1.txt'')) True
              \<lparr>format = ''ascii.fixed_width'', names = ascii_colnames,
               content = rapid_table_abridged\<rparr> fs1)"

definition write_marginal_rotator_tables ::
  "'p pathlib \<Rightarrow> 'p \<Rightarrow> (string \<Rightarrow> string \<Rightarrow> bool) \<Rightarrow> 'v mcq_row list \<Rightarrow> 'v apo_row list \<Rightarrow>
   'v filesystem \<Rightarrow> os_error + 'v filesystem" where
  "write_marginal_rotator_tables lib TABLE_PATH same mcq_dwarfs apo fs =
    (let mcq_rapid_dwarfs = filter (\<lambda>r. Prot r > 7 \<and> Prot r < 11) mcq_dwarfs;
         rapid_table = join_by_2MASS_key same mcq_rapid_dwarfs apo;
         rapid_table_abridged =
           sort_kepid \<lparr>colnames = abridged_cols, rows = map select_abridged rapid_table\<rparr>;
         latex_length = 5;
         latex_table = head_rows latex_length rapid_table_abridged
     in case table_write (path_str lib (truediv lib TABLE_PATH ''table2.tex'')) True
               \<lparr>format = ''ascii.aastex'', names = latex_colnames, content = latex_table\<rparr> fs of
          Inl e \<Rightarrow> Inl e
        | Inr fs1 \<Rightarrow>
            table_write (path_str lib (truediv lib TABLE_PATH ''table2.txt'')) True
              \<lparr>format = ''ascii.fixed_width'', names = ascii_colnames,
               content = rapid_table_abridged\<rparr> fs1)"

text \<open>The columns of a catalogue row that reach the table, and the same columns of a table row.\<close>

definition mcq_columns :: "'v mcq_row \<Rightarrow> int \<times> 'v \<times> 'v \<times> 'v \<times> 'v \<times> real" where
  "mcq_columns l = (kepid l, SDSS_Teff l, kmag l, M_K l, Corrected_K_Excess l, Prot l)"

definition row_mcq_columns :: "'v table_row \<Rightarrow> int \<times> 'v \<times> 'v \<times> 'v \<times> 'v \<times> real" where
  "row_mcq_columns r =
    (col_kepid r, col_SDSS_Teff r, col_kmag r, col_M_K r, col_Corrected_K_Excess r, col_Prot r)"

text \<open>
  Catalogues for evaluation: five stars with the periods 7, 2, 7.5, 1.5 and 11, of which the
  second has an APOGEE observation; keys name the same source when they are equal.
\<close>

definition star :: "int \<Rightarrow> string \<Rightarrow> real \<Rightarrow> nat mcq_row" where
  "star k key p =
    \<lparr>kepid = k, tm_designation = key, SDSS_Teff = 4500, kmag = 11, M_K = 5,
     Corrected_K_Excess = 0, Prot = p\<rparr>"

definition example_mcq :: "nat mcq_row list" where
  "example_mcq =
    [star 30 ''J3'' 7, star 10 ''J1'' 2, star 20 ''J2'' (15/2), star 50 ''J5'' (3/2),
     star 40 ''J4'' 11]"

definition example_apo :: "nat apo_row list" where
  "example_apo = [\<lparr>APOGEE_ID = ''J1'', FE_H = 0\<rparr>, \<lparr>APOGEE_ID = ''J9'', FE_H = 1\<rparr>]"

definition kepids_at :: "string \<Rightarrow> os_error + nat filesystem \<Rightarrow> int list option" where
  "kepids_at path result =
    (case result of
       Inl e \<Rightarrow> None
     | Inr fs \<Rightarrow> map_option (\<lambda>F. map col_kepid (rows (content F))) (fs path))"


chapter \<open>Verified properties\<close>

section \<open>Properties of the entry point\<close>

lemma figlist_values: "map snd figlist = all_figfuns"
  by (simp add: figlist_def all_figfuns_def)

lemma figlist_keys:
  "map fst figlist =
    [''Bruntt'', ''SH'', ''asterosamp'', ''coolsamp'', ''asterorot'', ''coolrot'',
     ''rrfracs'', ''binarity'']"
  by (simp add: figlist_def)





text \<open>
  Claim C5. Invoked with an empty list of figure-name tokens, the script prints the keys of
  \<^verbatim>\<open>figlist\<close> once and returns; no figure function is invoked (the call logs and the
  world are those of the initial state), whatever the value of the flag.
\<close>

theorem main_empty_prints_keys:
  "main body \<lparr>figs = [], list_figs = lf\<rparr> s =
     (Returned,
      s\<lparr>printed := printed s @
          [[''Bruntt'', ''SH'', ''asterosamp'', ''coolsamp'', ''asterorot'', ''coolrot'',
            ''rrfracs'', ''binarity'']]\<rparr>)"
  by (simp add: main_def figlist_keys)

section \<open>The entry point on the registered figure functions\<close>

lemma call_fig_raises:
  "fst (body f (world s)) = Some e \<Longrightarrow>
   call_fig body f s =
     (Aborted (Raised e), s\<lparr>invoked := invoked s @ [f], world := snd (body f (world s))\<rparr>)"
  by (cases "body f (world s)") (simp add: call_fig_def)

lemma source_bodies_broken:
  "fst (source_bodies lib FIGURE_PATH bruntt pleiades asteroseismic_sample_MK w)
     = Some (NameError ''asteroseismic_data_splitter'')"
  "fst (source_bodies lib FIGURE_PATH bruntt pleiades cool_dwarf_mk w)
     = Some (NameError ''cool_data_splitter'')"
  "fst (source_bodies lib FIGURE_PATH bruntt pleiades asteroseismic_rotation_analysis w)
     = Some (NameError ''asteroseismic_data_splitter'')"
  "fst (source_bodies lib FIGURE_PATH bruntt pleiades cool_dwarf_rotation_analysis w)
     = Some (NameError ''cool_data_splitter'')"
  "fst (source_bodies lib FIGURE_PATH bruntt pleiades plot_rr_fractions w)
     = Some (NameError ''cool_data_splitter'')"
  "fst (source_bodies lib FIGURE_PATH bruntt pleiades plot_binarity_diagram w)
     = Some (NameError ''cool_data_splitter'')"
  by (simp_all add: source_bodies_def write_plot_def raise_NameError_def)

lemma call_fig_outcome:
  "(\<exists>w'. call_fig body f s =
      (Returned, s\<lparr>invoked := invoked s @ [f], completed := completed s @ [f], world := w'\<rparr>))
   \<or> (\<exists>e w'. call_fig body f s =
      (Aborted (Raised e), s\<lparr>invoked := invoked s @ [f], world := w'\<rparr>))"
proof (cases "body f (world s)")
  case (Pair r w')
  then show ?thesis by (cases r) (auto simp add: call_fig_def)
qed

lemma all_pass_aborts:
  "\<exists>e s'. run_values (source_bodies lib FIGURE_PATH bruntt pleiades) all_figfuns s = (Aborted e, s')
     \<and> (completed s' = completed s
        \<or> completed s' = completed s @ [Bruntt_vsini_comparison]
        \<or> completed s' = completed s @ [Bruntt_vsini_comparison, Pleiades_vsini_comparison])"
proof -
  let ?b = "source_bodies lib FIGURE_PATH bruntt pleiades"
  from call_fig_outcome [of ?b Bruntt_vsini_comparison s] show ?thesis
  proof
    assume "\<exists>w'. call_fig ?b Bruntt_vsini_comparison s =
      (Returned, s\<lparr>invoked := invoked s @ [Bruntt_vsini_comparison],
         completed := completed s @ [Bruntt_vsini_comparison], world := w'\<rparr>)"
    then obtain w1 where c1: "call_fig ?b Bruntt_vsini_comparison s =
      (Returned, s\<lparr>invoked := invoked s @ [Bruntt_vsini_comparison],
         completed := completed s @ [Bruntt_vsini_comparison], world := w1\<rparr>)" by blast
    let ?s1 = "s\<lparr>invoked := invoked s @ [Bruntt_vsini_comparison],
         completed := completed s @ [Bruntt_vsini_comparison], world := w1\<rparr>"
    from call_fig_outcome [of ?b Pleiades_vsini_comparison ?s1] show ?thesis
    proof
      assume "\<exists>w'. call_fig ?b Pleiades_vsini_comparison ?s1 =
        (Returned, ?s1\<lparr>invoked := invoked ?s1 @ [Pleiades_vsini_comparison],
           completed := completed ?s1 @ [Pleiades_vsini_comparison], world := w'\<rparr>)"
      then obtain w2 where c2: "call_fig ?b Pleiades_vsini_comparison ?s1 =
        (Returned, ?s1\<lparr>invoked := invoked ?s1 @ [Pleiades_vsini_comparison],
           completed := completed ?s1 @ [Pleiades_vsini_comparison], world := w2\<rparr>)" by blast
      let ?s2 = "?s1\<lparr>invoked := invoked ?s1 @ [Pleiades_vsini_comparison],
           completed := completed ?s1 @ [Pleiades_vsini_comparison], world := w2\<rparr>"
      have c3: "call_fig ?b asteroseismic_sample_MK ?s2 =
        (Aborted (Raised (NameError ''asteroseismic_data_splitter'')),
         ?s2\<lparr>invoked := invoked ?s2 @ [asteroseismic_sample_MK],
             world := snd (?b asteroseismic_sample_MK (world ?s2))\<rparr>)"
        by (rule call_fig_raises) (rule source_bodies_broken)
      from c1 c2 c3 show ?thesis by (simp add: all_figfuns_def)
    next
      assume "\<exists>e w'. call_fig ?b Pleiades_vsini_comparison ?s1 =
        (Aborted (Raised e), ?s1\<lparr>invoked := invoked ?s1 @ [Pleiades_vsini_comparison], world := w'\<rparr>)"
      then obtain e w2 where "call_fig ?b Pleiades_vsini_comparison ?s1 =
        (Aborted (Raised e), ?s1\<lparr>invoked := invoked ?s1 @ [Pleiades_vsini_comparison], world := w2\<rparr>)"
        by blast
      with c1 show ?thesis by (simp add: all_figfuns_def)
    qed
  next
    assume "\<exists>e w'. call_fig ?b Bruntt_vsini_comparison s =
      (Aborted (Raised e), s\<lparr>invoked := invoked s @ [Bruntt_vsini_comparison], world := w'\<rparr>)"
    then obtain e w1 where "call_fig ?b Bruntt_vsini_comparison s =
      (Aborted (Raised e), s\<lparr>invoked := invoked s @ [Bruntt_vsini_comparison], world := w1\<rparr>)"
      by blast
    then show ?thesis by (simp add: all_figfuns_def)
  qed
qed

lemma example_all:
  "main example_bodies \<lparr>figs = [''all''], list_figs = False\<rparr> start_state =
     (Aborted (Raised (NameError ''asteroseismic_data_splitter'')),
      \<lparr>printed = [],
       invoked = [Bruntt_vsini_comparison, Pleiades_vsini_comparison, asteroseismic_sample_MK],
       completed = [Bruntt_vsini_comparison, Pleiades_vsini_comparison],
       world = \<lparr>open_figures = [1],
                savefig_log = [''/paper/fig/Bruntt_comp.pdf'', ''/paper/fig/Pleiades_comp.pdf''],
                beyond = ()\<rparr>\<rparr>)"
  by (simp add: main_def figlist_def example_bodies_def source_bodies_def start_state_def
      call_fig_def write_plot_def plt_close_all_def plt_savefig_def build_filepath_def
      string_paths_def PLOT_SUFFIX_def plots_and_returns_def plt_subplots_def
      raise_NameError_def)

text \<open>
  Claim C2. The claim is that a command line with the token "all" invokes all eight
  registered figure functions, in the dictionary's order. The code does not do this. On the
  argument list \<^verbatim>\<open>all\<close>, with the two library-bound functions returning normally, the
  pass calls \<^verbatim>\<open>Bruntt_vsini_comparison\<close> and \<^verbatim>\<open>Pleiades_vsini_comparison\<close>, saves their
  two figures, and aborts in the third function, \<^verbatim>\<open>asteroseismic_sample_MK\<close>, with
  the \<^verbatim>\<open>NameError\<close> of the undefined \<^verbatim>\<open>asteroseismic_data_splitter\<close>; the other five
  functions are never invoked. Whatever the two library-bound functions do, the run of
  \<^verbatim>\<open>all\<close> aborts, and no function but those two can have completed.
\<close>

theorem all_pass_aborts_at_undefined_name:
  "main example_bodies \<lparr>figs = [''all''], list_figs = False\<rparr> start_state =
     (Aborted (Raised (NameError ''asteroseismic_data_splitter'')),
      \<lparr>printed = [],
       invoked = [Bruntt_vsini_comparison, Pleiades_vsini_comparison, asteroseismic_sample_MK],
       completed = [Bruntt_vsini_comparison, Pleiades_vsini_comparison],
       world = \<lparr>open_figures = [1],
                savefig_log = [''/paper/fig/Bruntt_comp.pdf'', ''/paper/fig/Pleiades_comp.pdf''],
                beyond = ()\<rparr>\<rparr>)
   \<and> (\<exists>e s'. main (source_bodies lib FIGURE_PATH bruntt pleiades)
                 \<lparr>figs = [''all''], list_figs = lf\<rparr> s = (Aborted e, s')
        \<and> (completed s' = completed s
           \<or> completed s' = completed s @ [Bruntt_vsini_comparison]
           \<or> completed s' = completed s @ [Bruntt_vsini_comparison, Pleiades_vsini_comparison]))"
proof
  show "main example_bodies \<lparr>figs = [''all''], list_figs = False\<rparr> start_state =
     (Aborted (Raised (NameError ''asteroseismic_data_splitter'')),
      \<lparr>printed = [],
       invoked = [Bruntt_vsini_comparison, Pleiades_vsini_comparison, asteroseismic_sample_MK],
       completed = [Bruntt_vsini_comparison, Pleiades_vsini_comparison],
       world = \<lparr>open_figures = [1],
                savefig_log = [''/paper/fig/Bruntt_comp.pdf'', ''/paper/fig/Pleiades_comp.pdf''],
                beyond = ()\<rparr>\<rparr>)"
    by (rule example_all)
  have "main (source_bodies lib FIGURE_PATH bruntt pleiades) \<lparr>figs = [''all''], list_figs = lf\<rparr> s
      = run_values (source_bodies lib FIGURE_PATH bruntt pleiades) all_figfuns s"
    by (simp add: main_def figlist_values)
  with all_pass_aborts [of lib FIGURE_PATH bruntt pleiades s]
  show "\<exists>e s'. main (source_bodies lib FIGURE_PATH bruntt pleiades)
                 \<lparr>figs = [''all''], list_figs = lf\<rparr> s = (Aborted e, s')
        \<and> (completed s' = completed s
           \<or> completed s' = completed s @ [Bruntt_vsini_comparison]
           \<or> completed s' = completed s @ [Bruntt_vsini_comparison, Pleiades_vsini_comparison])"
    by simp
qed






section \<open>The flag \<^verbatim>\<open>--list-figs\<close>\<close>

lemma main_never_reads_list_figs: "main body (a\<lparr>list_figs := b\<rparr>) s = main body a s"
  by (simp add: main_def)

lemma positional_names_append:
  "positional_names (xs @ ys) = positional_names xs @ positional_names ys"
  by (induction xs rule: positional_names.induct) simp_all

lemma positional_names_flags: "positional_names (takeWhile is_flag xs) = []"
  by (induction xs rule: positional_names.induct) simp_all

lemma positional_names_filter: "positional_names (filter is_positional xs) = positional_names xs"
  by (induction xs rule: positional_names.induct) simp_all

lemma flag_not_positional: "List_figs_flag \<notin> set (filter is_positional xs)"
  by (induction xs) auto

lemma dropWhile_flag_positionals: "dropWhile is_flag (filter is_positional xs) = filter is_positional xs"
proof (cases "filter is_positional xs")
  case Nil
  then show ?thesis by simp
next
  case (Cons x rest)
  then have "x \<in> set (filter is_positional xs)" by simp
  then have "is_positional x" by simp
  then have "\<not> is_flag x" by (cases x) simp_all
  with Cons show ?thesis by simp
qed

lemma parse_args_positionals:
  "parse_args (without_flag argv) = Inr \<lparr>figs = positional_names argv, list_figs = False\<rparr>"
proof -
  have t: "takeWhile is_positional (filter is_positional argv) = filter is_positional argv"
    by (simp add: takeWhile_eq_all_conv)
  have d: "dropWhile is_positional (filter is_positional argv) = []"
    by (simp add: dropWhile_eq_Nil_conv)
  show ?thesis
    by (simp add: parse_args_def without_flag_def dropWhile_flag_positionals t d
        positional_names_filter flag_not_positional)
qed

lemma parse_args_accepted:
  assumes "parse_args argv = Inr a"
  shows "a = \<lparr>figs = positional_names argv, list_figs = (List_figs_flag \<in> set argv)\<rparr>"
proof -
  let ?after = "dropWhile is_flag argv"
  let ?taken = "takeWhile is_positional ?after"
  let ?rest = "dropWhile is_positional ?after"
  from assms have extras: "positional_names ?rest = []"
    and a: "a = \<lparr>figs = positional_names ?taken, list_figs = (List_figs_flag \<in> set argv)\<rparr>"
    by (auto simp add: parse_args_def Let_def split: if_splits)
  have "argv = takeWhile is_flag argv @ ?taken @ ?rest" by simp
  then have "positional_names argv
      = positional_names (takeWhile is_flag argv) @ positional_names ?taken @ positional_names ?rest"
    by (metis positional_names_append)
  with extras have "positional_names argv = positional_names ?taken"
    by (simp add: positional_names_flags)
  with a show ?thesis by simp
qed

text \<open>
  Claim C10 (as amended). The parsed value of the flag is never read. For every command
  line of figure-name tokens and \<^verbatim>\<open>--list-figs\<close> flags that the parser accepts, the run
  is the run of the same command line without the flags: it is the entry point on the
  namespace with the same figure names and the flag unset, so the same figure functions are
  invoked and the same output is printed.
\<close>

theorem list_figs_flag_has_no_effect:
  assumes "parse_args argv = Inr a"
  shows "script body argv s = script body (without_flag argv) s
    \<and> script body argv s =
        Inr (main body \<lparr>figs = positional_names argv, list_figs = False\<rparr> s)"
proof -
  from parse_args_accepted [OF assms]
  have a: "a = \<lparr>figs = positional_names argv, list_figs = False\<rparr>
               \<lparr>list_figs := (List_figs_flag \<in> set argv)\<rparr>"
    by simp
  have "script body argv s = Inr (main body a s)"
    using assms by (simp add: script_def)
  also have "\<dots> = Inr (main body \<lparr>figs = positional_names argv, list_figs = False\<rparr> s)"
    unfolding a by (simp only: main_never_reads_list_figs)
  finally have l: "script body argv s =
      Inr (main body \<lparr>figs = positional_names argv, list_figs = False\<rparr> s)" .
  have r: "script body (without_flag argv) s =
      Inr (main body \<lparr>figs = positional_names argv, list_figs = False\<rparr> s)"
    by (simp add: script_def parse_args_positionals)
  from l r show ?thesis by simp
qed

text \<open>
  Witness for C10: \<^verbatim>\<open>--list-figs Bruntt SH\<close> is accepted and runs as \<^verbatim>\<open>Bruntt SH\<close>
  does: both functions are invoked and complete.
\<close>

theorem list_figs_flag_has_no_effect_witness:
  "parse_args [List_figs_flag, Positional ''Bruntt'', Positional ''SH'']
     = Inr \<lparr>figs = [''Bruntt'', ''SH''], list_figs = True\<rparr>
   \<and> script example_bodies [List_figs_flag, Positional ''Bruntt'', Positional ''SH''] start_state
     = script example_bodies [Positional ''Bruntt'', Positional ''SH''] start_state
   \<and> script example_bodies [List_figs_flag, Positional ''Bruntt'', Positional ''SH''] start_state
     = Inr (Returned,
        \<lparr>printed = [],
         invoked = [Bruntt_vsini_comparison, Pleiades_vsini_comparison],
         completed = [Bruntt_vsini_comparison, Pleiades_vsini_comparison],
         world = \<lparr>open_figures = [1],
                  savefig_log = [''/paper/fig/Bruntt_comp.pdf'', ''/paper/fig/Pleiades_comp.pdf''],
                  beyond = ()\<rparr>\<rparr>)"
proof -
  have h: "parse_args [List_figs_flag, Positional ''Bruntt'', Positional ''SH'']
     = Inr \<lparr>figs = [''Bruntt'', ''SH''], list_figs = True\<rparr>"
    by (simp add: parse_args_def)
  have e: "main example_bodies \<lparr>figs = [''Bruntt'', ''SH''], list_figs = False\<rparr> start_state
     = (Returned,
        \<lparr>printed = [],
         invoked = [Bruntt_vsini_comparison, Pleiades_vsini_comparison],
         completed = [Bruntt_vsini_comparison, Pleiades_vsini_comparison],
         world = \<lparr>open_figures = [1],
                  savefig_log = [''/paper/fig/Bruntt_comp.pdf'', ''/paper/fig/Pleiades_comp.pdf''],
                  beyond = ()\<rparr>\<rparr>)"
    by (simp add: main_def figlist_def example_bodies_def source_bodies_def start_state_def
        call_fig_def write_plot_def plt_close_all_def plt_savefig_def build_filepath_def
        string_paths_def PLOT_SUFFIX_def plots_and_returns_def plt_subplots_def)
  note c10 = list_figs_flag_has_no_effect [OF h, of example_bodies start_state]
  have w: "without_flag [List_figs_flag, Positional ''Bruntt'', Positional ''SH'']
      = [Positional ''Bruntt'', Positional ''SH'']"
    by (simp add: without_flag_def)
  have n: "positional_names [List_figs_flag, Positional ''Bruntt'', Positional ''SH'']
      = [''Bruntt'', ''SH'']"
    by simp
  from c10 have 1: "script example_bodies [List_figs_flag, Positional ''Bruntt'', Positional ''SH'']
      start_state = script example_bodies [Positional ''Bruntt'', Positional ''SH''] start_state"
    unfolding w by (rule conjunct1)
  from c10 have 2: "script example_bodies [List_figs_flag, Positional ''Bruntt'', Positional ''SH'']
      start_state = Inr (main example_bodies \<lparr>figs = [''Bruntt'', ''SH''], list_figs = False\<rparr>
        start_state)"
    unfolding n by (rule conjunct2)
  from h 1 2 [unfolded e] show ?thesis by (intro conjI)
qed

text \<open>
  Counterexample to C10 as stated: with the flag between two figure names the parser rejects
  the command line and no figure function is invoked, while the same command line without
  the flag invokes two.
\<close>

theorem list_figs_between_names_rejected:
  "script example_bodies [Positional ''Bruntt'', List_figs_flag, Positional ''SH''] start_state
     = Inl (Unrecognized_arguments [''SH''])
   \<and> script example_bodies [Positional ''Bruntt'', Positional ''SH''] start_state
     = Inr (Returned,
        \<lparr>printed = [],
         invoked = [Bruntt_vsini_comparison, Pleiades_vsini_comparison],
         completed = [Bruntt_vsini_comparison, Pleiades_vsini_comparison],
         world = \<lparr>open_figures = [1],
                  savefig_log = [''/paper/fig/Bruntt_comp.pdf'', ''/paper/fig/Pleiades_comp.pdf''],
                  beyond = ()\<rparr>\<rparr>)"
  by (simp add: script_def parse_args_def main_def figlist_def example_bodies_def
      source_bodies_def start_state_def call_fig_def write_plot_def plt_close_all_def
      plt_savefig_def build_filepath_def string_paths_def PLOT_SUFFIX_def
      plots_and_returns_def plt_subplots_def)

lemma parse_args_examples:
  "parse_args [] = Inr \<lparr>figs = [], list_figs = False\<rparr>"
  "parse_args [List_figs_flag] = Inr \<lparr>figs = [], list_figs = True\<rparr>"
  "parse_args [Positional ''a'', Positional ''b'', List_figs_flag, Positional ''c'',
               List_figs_flag, Positional ''d'']
     = Inl (Unrecognized_arguments [''c'', ''d''])"
  "parse_args [List_figs_flag, Positional ''a'', Positional ''b'', List_figs_flag]
     = Inr \<lparr>figs = [''a'', ''b''], list_figs = True\<rparr>"
  by (simp_all add: parse_args_def)

section \<open>Properties of the decorator\<close>

text \<open>
  Claim C1 (as amended). Whenever the wrapped function, run after all figures have been
  closed, returns normally with value \<open>a\<close>, the wrapper has first closed all open figures
  (the function starts with none open), then run the function, then saved one file, at the
  path \<^verbatim>\<open>str(toplevel / "filename.suffix")\<close> that \<^verbatim>\<open>build_filepath\<close> builds, and it
  returns \<open>a\<close> unchanged. The save is the wrapper's only write: the log of saves is the
  one the function left, with that path added.
\<close>

theorem write_plot_saves_once:
  assumes "f (plt_close_all s) = (Inr a, s2)"
  shows "open_figures (plt_close_all s) = []
    \<and> write_plot lib filename suffix toplevel f s =
        (Inr a,
         s2\<lparr>savefig_log := savefig_log s2 @
              [path_str lib (truediv lib toplevel (filename @ ''.'' @ suffix))]\<rparr>)
    \<and> build_filepath lib toplevel filename suffix =
        path_str lib (truediv lib toplevel (filename @ ''.'' @ suffix))"
  using assms by (simp add: write_plot_def plt_close_all_def plt_savefig_def build_filepath_def)

text \<open>
  Witness for C1: a function that opens one figure and returns 7, wrapped as
  \<^verbatim>\<open>@write_plot("f2")\<close> and called with two stale figures open.
\<close>

theorem write_plot_saves_once_witness:
  "one_figure (plt_close_all stale_state) = (Inr 7, \<lparr>open_figures = [1], savefig_log = [], beyond = ()\<rparr>)
   \<and> write_plot string_paths ''f2'' PLOT_SUFFIX ''/paper/fig'' one_figure stale_state =
       (Inr 7, \<lparr>open_figures = [1], savefig_log = [''/paper/fig/f2.pdf''], beyond = ()\<rparr>)"
proof -
  have h: "one_figure (plt_close_all stale_state)
      = (Inr 7, \<lparr>open_figures = [1], savefig_log = [], beyond = ()\<rparr>)"
    by (simp add: one_figure_def plt_close_all_def stale_state_def)
  show ?thesis
    using h write_plot_saves_once [where f = one_figure and s = stale_state
        and lib = string_paths and filename = "''f2''" and suffix = PLOT_SUFFIX
        and toplevel = "''/paper/fig''", OF h]
    by (simp add: string_paths_def PLOT_SUFFIX_def)
qed

text \<open>
  Counterexample to C1 as stated: when the wrapped function raises, the invocation closes
  the figures and then ends at the call: the exception propagates, no file is saved and no
  value is returned.
\<close>

theorem write_plot_raising_saves_nothing:
  "write_plot string_paths ''f2'' PLOT_SUFFIX ''/paper/fig'' failing_figure stale_state =
     (Inl (), \<lparr>open_figures = [], savefig_log = [], beyond = ()\<rparr>)"
  by (simp add: write_plot_def failing_figure_def plt_close_all_def stale_state_def)

section \<open>Properties of \<^verbatim>\<open>running_percentile\<close>\<close>

text \<open>
  Claim C8. The result of \<^verbatim>\<open>running_percentile\<close> depends on \<^verbatim>\<open>yvals\<close> only through
  its length: for the same \<^verbatim>\<open>xvals\<close>, \<^verbatim>\<open>size\<close> and \<^verbatim>\<open>percentile\<close>, two arrays
  \<^verbatim>\<open>yvals\<close> of equal length (even of different element types) give the same outcome,
  the same pair of arrays or the same error.
\<close>

theorem running_percentile_ignores_yvals:
  assumes "length yvals = length yvals'"
  shows "running_percentile mean pct xvals yvals size' percentile =
         running_percentile mean pct xvals yvals' size' percentile"
  unfolding running_percentile_def assms by (rule refl)

text \<open>
  Witness for C8: windows of size 2 over four values, with two different \<^verbatim>\<open>yvals\<close>
  of length 4; both calls return the running means and the running minima of \<^verbatim>\<open>xvals\<close>.
\<close>

theorem running_percentile_ignores_yvals_witness:
  "length [10, 20, 30, 40::nat] = length [True, False, False, True]
   \<and> running_percentile list_mean list_min [1, 2, 6, 3] [10, 20, 30, 40::nat] 2 0
       = Inr ([3/2, 4], [1, 2])
   \<and> running_percentile list_mean list_min [1, 2, 6, 3] [True, False, False, True] 2 0
       = Inr ([3/2, 4], [1, 2])"
proof -
  have h: "length [10, 20, 30, 40::nat] = length [True, False, False, True]" by simp
  have e: "running_percentile list_mean list_min [1, 2, 6, 3] [10, 20, 30, 40::nat] 2 0
      = Inr ([3/2, 4], [1, 2])"
    by (simp add: running_percentile_def np_zeros_def py_range_def py_slice_def np_setitem_def
        list_mean_def list_min_def upto.simps numeral_2_eq_2)
  show ?thesis
    using h e
      running_percentile_ignores_yvals [OF h, of list_mean list_min "[1, 2, 6, 3]" 2 0]
    by simp
qed

lemma running_percentile_short_yvals:
  "running_percentile list_mean list_min [1, 2, 6, 3] [10, 20, 30::nat] 2 0 = Inl IndexError"
  by (simp add: running_percentile_def np_zeros_def py_range_def py_slice_def np_setitem_def
      list_mean_def list_min_def upto.simps numeral_2_eq_2)

lemma running_percentile_large_size:
  "running_percentile list_mean list_min [1, 2, 6, 3] [10, 20, 30, 40::nat] 5 0 = Inl ValueError"
  by (simp add: running_percentile_def np_zeros_def)

section \<open>Properties of the scatter loop\<close>

lemma scatter_loop_console:
  "console (scatter_loop rs s) = console s @ concat (map iteration_lines rs)"
  by (induction rs arbitrary: s) (simp_all add: scatter_iteration_def iteration_lines_def Let_def)

lemma scatter_loop_real:
  "real_scatter (scatter_loop rs s) = real_scatter s @ map single_std (filter converged rs)"
  by (induction rs arbitrary: s) (simp_all add: scatter_iteration_def converged_def Let_def)

lemma scatter_loop_measured:
  "measured_scatter (scatter_loop rs s) = measured_scatter s @ map stddev_0 (filter converged rs)"
  by (induction rs arbitrary: s) (simp_all add: scatter_iteration_def converged_def Let_def)

lemma scatter_loop_result:
  "scatter_loop rs s =
     \<lparr>console = console s @ concat (map iteration_lines rs),
      real_scatter = real_scatter s @ map single_std (filter converged rs),
      measured_scatter = measured_scatter s @ map stddev_0 (filter converged rs)\<rparr>"
  by (rule scatter_state.equality)
    (simp_all add: scatter_loop_console scatter_loop_real scatter_loop_measured)

text \<open>
  Claim C4. An iteration whose exit mode is not 0 prints the exit mode and the fitter's
  message and changes neither list; an iteration whose exit mode is 0 prints the exit mode
  and appends its two scatter values. The iteration has no other branch: it raises nothing.
  So the loop leaves, in order, the values of exactly the converged iterations in
  \<^verbatim>\<open>real_scatter\<close> and \<^verbatim>\<open>measured_scatter\<close>, and these are the lists the linear fit
  \<^verbatim>\<open>np.polyfit(measured_scatter, real_scatter, 1)\<close> receives.
\<close>

theorem scatter_loop_skips_failed_fits:
  "(exit_mode r \<noteq> 0 \<longrightarrow>
      scatter_iteration r s =
        s\<lparr>console := console s @ [Print_int (exit_mode r), Print_str (message r)]\<rparr>)
   \<and> (exit_mode r = 0 \<longrightarrow>
      scatter_iteration r s =
        s\<lparr>console := console s @ [Print_int 0],
          real_scatter := real_scatter s @ [single_std r],
          measured_scatter := measured_scatter s @ [stddev_0 r]\<rparr>)
   \<and> scatter_relation polyfit fits out =
       (polyfit (map stddev_0 (filter converged fits)) (map single_std (filter converged fits)),
        \<lparr>console = out @ concat (map iteration_lines fits),
         real_scatter = map single_std (filter converged fits),
         measured_scatter = map stddev_0 (filter converged fits)\<rparr>)"
  by (simp add: scatter_iteration_def scatter_relation_def scatter_loop_result Let_def)

text \<open>
  Witness for C4: three iterations, the second of which does not converge (exit mode 8);
  the linear fit, here standing for itself as the pair of its arguments, receives the values
  of the first and the third.
\<close>

theorem scatter_loop_skips_failed_fits_witness:
  "exit_mode failed_fit \<noteq> 0 \<and> exit_mode (good_fit 1 2) = 0
   \<and> scatter_iteration failed_fit \<lparr>console = [], real_scatter = [5], measured_scatter = [6]\<rparr>
       = \<lparr>console = [Print_int 8, Print_str ''Positive directional derivative for linesearch''],
          real_scatter = [5], measured_scatter = [6]\<rparr>
   \<and> scatter_iteration (good_fit 1 2) \<lparr>console = [], real_scatter = [5], measured_scatter = [6]\<rparr>
       = \<lparr>console = [Print_int 0], real_scatter = [5, 1], measured_scatter = [6, 2]\<rparr>
   \<and> scatter_relation Pair [good_fit 1 2, failed_fit, good_fit 3 4] []
       = (([2, 4], [1, 3]),
          \<lparr>console = [Print_int 0, Print_int 8,
                      Print_str ''Positive directional derivative for linesearch'', Print_int 0],
           real_scatter = [1, 3], measured_scatter = [2, 4]\<rparr>)"
proof -
  have h1: "exit_mode failed_fit \<noteq> 0" by (simp add: failed_fit_def)
  have h2: "exit_mode (good_fit 1 2) = 0" by (simp add: good_fit_def)
  note c4 = scatter_loop_skips_failed_fits [where polyfit = Pair
      and fits = "[good_fit 1 2, failed_fit, good_fit 3 4]" and out = "[]"]
  let ?s = "\<lparr>console = [], real_scatter = [5], measured_scatter = [6::nat]\<rparr>"
  have a: "scatter_iteration failed_fit ?s =
      ?s\<lparr>console := console ?s @ [Print_int (exit_mode failed_fit), Print_str (message failed_fit)]\<rparr>"
    using c4 [of failed_fit ?s] h1 by blast
  have b: "scatter_iteration (good_fit 1 2) ?s =
      ?s\<lparr>console := console ?s @ [Print_int 0],
        real_scatter := real_scatter ?s @ [single_std (good_fit 1 2)],
        measured_scatter := measured_scatter ?s @ [stddev_0 (good_fit 1 2)]\<rparr>"
    using c4 [of "good_fit 1 2" ?s] h2 by blast
  have c: "scatter_relation Pair [good_fit 1 2, failed_fit, good_fit 3 4] [] =
      (Pair (map stddev_0 (filter converged [good_fit 1 2, failed_fit, good_fit 3 4]))
         (map single_std (filter converged [good_fit 1 2, failed_fit, good_fit 3 4])),
       \<lparr>console = [] @ concat (map iteration_lines [good_fit 1 2, failed_fit, good_fit 3 4]),
        real_scatter = map single_std (filter converged [good_fit 1 2, failed_fit, good_fit 3 4]),
        measured_scatter = map stddev_0 (filter converged [good_fit 1 2, failed_fit, good_fit 3 4])\<rparr>)"
    using c4 [of failed_fit ?s] by blast
  have a': "scatter_iteration failed_fit ?s
       = \<lparr>console = [Print_int 8, Print_str ''Positive directional derivative for linesearch''],
          real_scatter = [5], measured_scatter = [6]\<rparr>"
    unfolding a by (simp add: failed_fit_def)
  have b': "scatter_iteration (good_fit 1 2) ?s
       = \<lparr>console = [Print_int 0], real_scatter = [5, 1], measured_scatter = [6, 2]\<rparr>"
    unfolding b by (simp add: good_fit_def)
  have c': "scatter_relation Pair [good_fit 1 2, failed_fit, good_fit 3 4] []
       = (([2, 4], [1, 3]),
          \<lparr>console = [Print_int 0, Print_int 8,
                      Print_str ''Positive directional derivative for linesearch'', Print_int 0],
           real_scatter = [1, 3], measured_scatter = [2, 4]\<rparr>)"
    unfolding c by (simp add: failed_fit_def good_fit_def converged_def iteration_lines_def)
  from h1 h2 a' b' c' show ?thesis by blast
qed

section \<open>Properties of the table writers\<close>

lemma select_abridged_columns: "row_mcq_columns (select_abridged (l, r)) = mcq_columns l"
  by (simp add: select_abridged_def row_mcq_columns_def mcq_columns_def)

lemma fst_set_join: "fst ` set (join_by_2MASS_key same left right) = set left"
proof (induction left)
  case Nil
  then show ?case by (simp add: join_by_2MASS_key_def)
next
  case (Cons l left)
  have one: "fst ` set (case filter (\<lambda>r. same (tm_designation l) (APOGEE_ID r)) right of
         [] \<Rightarrow> [(l, None)]
       | matches \<Rightarrow> map (\<lambda>r. (l, Some r)) matches) = {l}"
    by (cases "filter (\<lambda>r. same (tm_designation l) (APOGEE_ID r)) right") (auto simp: image_iff)
  from Cons one show ?case by (simp add: join_by_2MASS_key_def image_Un)
qed

lemma columns_of_joined:
  "row_mcq_columns ` set (map select_abridged (join_by_2MASS_key same left right))
     = mcq_columns ` set left"
proof -
  have "row_mcq_columns (select_abridged j) = mcq_columns (fst j)" for j :: "'a mcq_row \<times> 'a apo_row option"
    by (cases j) (simp add: select_abridged_columns)
  then have "row_mcq_columns ` set (map select_abridged (join_by_2MASS_key same left right))
      = mcq_columns ` (fst ` set (join_by_2MASS_key same left right))"
    by (simp add: image_image)
  then show ?thesis by (simp add: fst_set_join)
qed

lemma table_write_overwrite: "table_write path True file fs = Inr (fs(path \<mapsto> file))"
  by (simp add: table_write_def)


lemma rapid_writes:
  "write_rapid_rotator_tables lib TABLE_PATH same mcq_dwarfs apo fs =
    Inr (fs(path_str lib (truediv lib TABLE_PATH ''table1.tex'') \<mapsto>
            \<lparr>format = ''ascii.aastex'', names = latex_colnames,
             content = \<lparr>colnames = abridged_cols,
               rows = take 5 (sort_key col_kepid (map select_abridged
                 (join_by_2MASS_key same
                    (filter (\<lambda>r. Prot r > 1.5 \<and> Prot r \<le> 7) mcq_dwarfs) apo)))\<rparr>\<rparr>,
          path_str lib (truediv lib TABLE_PATH ''table1.txt'') \<mapsto>
            \<lparr>format = ''ascii.fixed_width'', names = ascii_colnames,
             content = \<lparr>colnames = abridged_cols,
               rows = sort_key col_kepid (map select_abridged
                 (join_by_2MASS_key same
                    (filter (\<lambda>r. Prot r > 1.5 \<and> Prot r \<le> 7) mcq_dwarfs) apo))\<rparr>\<rparr>))"
  by (simp add: write_rapid_rotator_tables_def table_write_overwrite sort_kepid_def
      head_rows_def Let_def)

lemma marginal_writes:
  "write_marginal_rotator_tables lib TABLE_PATH same mcq_dwarfs apo fs =
    Inr (fs(path_str lib (truediv lib TABLE_PATH ''table2.tex'') \<mapsto>
            \<lparr>format = ''ascii.aastex'', names = latex_colnames,
             content = \<lparr>colnames = abridged_cols,
               rows = take 5 (sort_key col_kepid (map select_abridged
                 (join_by_2MASS_key same
                    (filter (\<lambda>r. Prot r > 7 \<and> Prot r < 11) mcq_dwarfs) apo)))\<rparr>\<rparr>,
          path_str lib (truediv lib TABLE_PATH ''table2.txt'') \<mapsto>
            \<lparr>format = ''ascii.fixed_width'', names = ascii_colnames,
             content = \<lparr>colnames = abridged_cols,
               rows = sort_key col_kepid (map select_abridged
                 (join_by_2MASS_key same
                    (filter (\<lambda>r. Prot r > 7 \<and> Prot r < 11) mcq_dwarfs) apo))\<rparr>\<rparr>))"
  by (simp add: write_marginal_rotator_tables_def table_write_overwrite sort_kepid_def
      head_rows_def Let_def)

lemma columns_of_sorted:
  "row_mcq_columns ` set (sort_key col_kepid (map select_abridged
       (join_by_2MASS_key same (filter P mcq_dwarfs) apo)))
     = mcq_columns ` {l \<in> set mcq_dwarfs. P l}"
proof -
  have "set (sort_key col_kepid (map select_abridged
       (join_by_2MASS_key same (filter P mcq_dwarfs) apo)))
     = set (map select_abridged (join_by_2MASS_key same (filter P mcq_dwarfs) apo))"
    by simp
  then show ?thesis
    by (simp only: columns_of_joined) simp
qed

text \<open>
  Claim C3. \<^verbatim>\<open>write_rapid_rotator_tables\<close> succeeds and leaves at
  \<^verbatim>\<open>TABLE_PATH/table1.txt\<close> a fixed-width table which has exactly the eight columns
  kepid, APOGEE_ID, SDSS-Teff, kmag, M_K, Corrected K Excess, Prot and FE_H (written under
  the header names KIC, APOGEE_ID, Teff, K, MK, DELTA_K, Prot, [Fe/H]), whose rows are
  sorted ascending by the identifier kepid, and whose rows are the stars of
  \<open>mcq_dwarfs\<close> with \<open>1.5 < Prot \<le> 7\<close>, all of them and no others.
\<close>

theorem rapid_table_rows_sorted_selected:
  "\<exists>fs' T. write_rapid_rotator_tables lib TABLE_PATH same mcq_dwarfs apo fs = Inr fs'
     \<and> fs' (path_str lib (truediv lib TABLE_PATH ''table1.txt'')) =
         Some \<lparr>format = ''ascii.fixed_width'',
               names = [''KIC'', ''APOGEE_ID'', ''Teff'', ''K'', ''MK'', ''DELTA_K'', ''Prot'',
                        ''[Fe/H]''],
               content = T\<rparr>
     \<and> colnames T =
         [''kepid'', ''APOGEE_ID'', ''SDSS-Teff'', ''kmag'', ''M_K'', ''Corrected K Excess'',
          ''Prot'', ''FE_H'']
     \<and> sorted (map col_kepid (rows T))
     \<and> row_mcq_columns ` set (rows T) =
         mcq_columns ` {l \<in> set mcq_dwarfs. 1.5 < Prot l \<and> Prot l \<le> 7}"
  unfolding rapid_writes
  by (simp add: ascii_colnames_def abridged_cols_def columns_of_sorted del: set_sort set_map)


lemma table_write_refuses:
  "table_write path False file (fs(path \<mapsto> old)) = Inl (FileExists path)"
  by (simp add: table_write_def)

lemma rapid_rows_period:
  "r \<in> set (sort_key col_kepid (map select_abridged
       (join_by_2MASS_key same (filter P mcq_dwarfs) apo))) \<Longrightarrow>
   \<exists>l \<in> set mcq_dwarfs. P l \<and> row_mcq_columns r = mcq_columns l"
proof -
  assume "r \<in> set (sort_key col_kepid (map select_abridged
       (join_by_2MASS_key same (filter P mcq_dwarfs) apo)))"
  then have "row_mcq_columns r \<in> row_mcq_columns ` set (sort_key col_kepid (map select_abridged
       (join_by_2MASS_key same (filter P mcq_dwarfs) apo)))"
    by (rule imageI)
  then have "row_mcq_columns r \<in> mcq_columns ` {l \<in> set mcq_dwarfs. P l}"
    by (simp only: columns_of_sorted)
  then show ?thesis by auto
qed

lemma rows_period:
  assumes "r \<in> set (sort_key col_kepid (map select_abridged
       (join_by_2MASS_key same (filter P mcq_dwarfs) apo)))"
  shows "\<exists>l. P l \<and> col_Prot r = Prot l"
proof -
  from rapid_rows_period [OF assms] obtain l where "P l" "row_mcq_columns r = mcq_columns l"
    by blast
  then show ?thesis by (auto simp: row_mcq_columns_def mcq_columns_def)
qed

text \<open>
  Claim C9. The two period selections are disjoint. Run on any catalogues, the rapid-rotator
  table holds only periods with \<open>1.5 < Prot \<le> 7\<close> and the marginal-rotator table only
  periods with \<open>7 < Prot < 11\<close>; so no star \<open>l\<close> (a catalogue row, with its one period)
  is in both tables.
\<close>

theorem period_selections_disjoint:
  "\<exists>fs1 fs2 F1 F2.
     write_rapid_rotator_tables lib TABLE_PATH same mcq_dwarfs apo fs = Inr fs1
     \<and> fs1 (path_str lib (truediv lib TABLE_PATH ''table1.txt'')) = Some F1
     \<and> write_marginal_rotator_tables lib TABLE_PATH same mcq_dwarfs' apo' fs = Inr fs2
     \<and> fs2 (path_str lib (truediv lib TABLE_PATH ''table2.txt'')) = Some F2
     \<and> col_Prot ` set (rows (content F1)) \<subseteq> {p. 1.5 < p \<and> p \<le> 7}
     \<and> col_Prot ` set (rows (content F2)) \<subseteq> {p. 7 < p \<and> p < 11}
     \<and> \<not> (mcq_columns l \<in> row_mcq_columns ` set (rows (content F1))
          \<and> mcq_columns l \<in> row_mcq_columns ` set (rows (content F2)))"
proof -
  let ?R1 = "sort_key col_kepid (map select_abridged
       (join_by_2MASS_key same (filter (\<lambda>r. Prot r > 1.5 \<and> Prot r \<le> 7) mcq_dwarfs) apo))"
  let ?R2 = "sort_key col_kepid (map select_abridged
       (join_by_2MASS_key same (filter (\<lambda>r. Prot r > 7 \<and> Prot r < 11) mcq_dwarfs') apo'))"
  have p1: "col_Prot ` set ?R1 \<subseteq> {p. 1.5 < p \<and> p \<le> 7}"
  proof
    fix p assume "p \<in> col_Prot ` set ?R1"
    then obtain r where "r \<in> set ?R1" "p = col_Prot r" by blast
    with rows_period [of r same "\<lambda>r. Prot r > 1.5 \<and> Prot r \<le> 7" mcq_dwarfs apo]
    show "p \<in> {p. 1.5 < p \<and> p \<le> 7}" by auto
  qed
  have p2: "col_Prot ` set ?R2 \<subseteq> {p. 7 < p \<and> p < 11}"
  proof
    fix p assume "p \<in> col_Prot ` set ?R2"
    then obtain r where "r \<in> set ?R2" "p = col_Prot r" by blast
    with rows_period [of r same "\<lambda>r. Prot r > 7 \<and> Prot r < 11" mcq_dwarfs' apo']
    show "p \<in> {p. 7 < p \<and> p < 11}" by auto
  qed
  have d: "\<not> (mcq_columns l \<in> row_mcq_columns ` set ?R1
          \<and> mcq_columns l \<in> row_mcq_columns ` set ?R2)"
  proof
    assume a: "mcq_columns l \<in> row_mcq_columns ` set ?R1
          \<and> mcq_columns l \<in> row_mcq_columns ` set ?R2"
    from a have "mcq_columns l \<in> row_mcq_columns ` set ?R1" by (rule conjunct1)
    then obtain r1 where r1: "r1 \<in> set ?R1" "row_mcq_columns r1 = mcq_columns l"
      by (elim imageE) simp
    from a have "mcq_columns l \<in> row_mcq_columns ` set ?R2" by (rule conjunct2)
    then obtain r2 where r2: "r2 \<in> set ?R2" "row_mcq_columns r2 = mcq_columns l"
      by (elim imageE) simp
    note r = r1 r2
    then have "col_Prot r1 = Prot l" "col_Prot r2 = Prot l"
      by (simp_all add: row_mcq_columns_def mcq_columns_def)
    moreover from r(1) p1 have "col_Prot r1 \<le> 7" by auto
    moreover from r(3) p2 have "7 < col_Prot r2" by auto
    ultimately show False by simp
  qed
  let ?F1 = "\<lparr>format = ''ascii.fixed_width'', names = ascii_colnames,
             content = \<lparr>colnames = abridged_cols, rows = ?R1\<rparr>\<rparr>"
  let ?F2 = "\<lparr>format = ''ascii.fixed_width'', names = ascii_colnames,
             content = \<lparr>colnames = abridged_cols, rows = ?R2\<rparr>\<rparr>"
  have r1: "rows (content ?F1) = ?R1" and r2: "rows (content ?F2) = ?R2"
    by simp_all
  show ?thesis
    unfolding rapid_writes marginal_writes
    apply (intro exI conjI)
          apply (rule refl)
         apply (rule fun_upd_same)
        apply (rule refl)
       apply (rule fun_upd_same)
      apply (simp only: r1 p1)
     apply (simp only: r2 p2)
    apply (simp only: r1 r2 d not_False_eq_True)
    done
qed

lemma rapid_example:
  "kepids_at ''/tables/table1.txt''
     (write_rapid_rotator_tables string_paths ''/tables'' (=) example_mcq example_apo Map.empty)
   = Some [10, 30]"
  by (simp add: kepids_at_def write_rapid_rotator_tables_def table_write_def string_paths_def
      example_mcq_def example_apo_def star_def join_by_2MASS_key_def select_abridged_def
      sort_kepid_def head_rows_def)

lemma marginal_example:
  "kepids_at ''/tables/table2.txt''
     (write_marginal_rotator_tables string_paths ''/tables'' (=) example_mcq example_apo Map.empty)
   = Some [20]"
  by (simp add: kepids_at_def write_marginal_rotator_tables_def table_write_def string_paths_def
      example_mcq_def example_apo_def star_def join_by_2MASS_key_def select_abridged_def
      sort_kepid_def head_rows_def)

end
